theory Spec2Isabelle
  imports Main
begin

section \<open>Values, dictionaries and errors\<close>

text \<open>
  Column values are Python scalars. An input dictionary and a primary-key dictionary are
  Python dicts: association lists in insertion order (a dict has no repeated key).
  A predicate is one SqlAlchemy boolean expression, read as a test on a database row.
\<close>

datatype val = VNone | VInt int | VBool bool | VStr string

type_synonym row = "string \<Rightarrow> val option"
type_synonym predicate = "row \<Rightarrow> bool"
type_synonym input_dict = "(string \<times> val) list"
type_synonym PrimaryKeyDict = "(string \<times> val) list"

datatype error =
    NoResultFound
  | MultipleResultsFound
  | TypeError
  | IntegrityError
  | KeyError
  | InvalidRequestError
  | AttributeError

section \<open>Configuration: the mapped class and the CRUD settings\<close>

text \<open>
  \<open>crudsettings.Model\<close> is the mapped class: the attribute names its constructor accepts
  (\<open>hasattr(cls, k)\<close>) and its NOT NULL columns. \<open>crudsettings.primary_key\<close> is the ordered
  list of identity-field names; the mapper's primary key is the same list.
\<close>

record sa_model =
  attribute_names :: "string list"
  not_null :: "string list"

record CrudSettings =
  Model :: sa_model
  primary_key :: "string list"

section \<open>The Parameters value object\<close>

text \<open>
  \<open>CrudParams\<close> is a caller-defined dataclass: its field values, and the three predicate
  methods a subclass supplies. The methods read the field values of the object they are called on.
\<close>

record CrudParams =
  field_values :: "string \<Rightarrow> val option"
  filter_impl :: "(string \<Rightarrow> val option) \<Rightarrow> predicate list"
  filter_one_impl :: "(string \<Rightarrow> val option) \<Rightarrow> predicate list"
  filter_many_impl :: "(string \<Rightarrow> val option) \<Rightarrow> predicate list"

definition filter' :: "CrudParams \<Rightarrow> predicate list" where
  "filter' p = filter_impl p (field_values p)"

definition filter_one :: "CrudParams \<Rightarrow> predicate list" where
  "filter_one p = filter_one_impl p (field_values p)"

definition filter_many :: "CrudParams \<Rightarrow> predicate list" where
  "filter_many p = filter_many_impl p (field_values p)"

section \<open>The persistence session\<close>

text \<open>
  A mapped object carries its attribute dictionary, the change tracker's record of the
  value each attribute had when it was first assigned since the last flush
  (\<open>committed_state\<close>; the inner \<open>None\<close> is "no value yet"), its persisted identity
  (\<open>instance_state(instance).identity\<close>, absent until the first flush) and its state
  relative to the session. \<open>Deleted\<close> is "marked for deletion, row still stored";
  \<open>Detached\<close> is "row removed".

  Objects are shared between the CRUD handler and the session, so they live in a store
  (\<open>objects\<close>) and the handler holds indices into it.
\<close>

datatype status = Transient | Pending | Persistent | Deleted | Detached

record sa_instance =
  attrs :: "string \<Rightarrow> val option"
  committed_state :: "string \<Rightarrow> val option option"
  identity :: "val list option"
  status :: status

record Session =
  objects :: "sa_instance list"
  autoflush :: bool
  serial :: int

definition getattr :: "sa_instance \<Rightarrow> string \<Rightarrow> val" where
  "getattr i k = (case attrs i k of None \<Rightarrow> VNone | Some v \<Rightarrow> v)"

text \<open>
  \<open>setattr(instance, key, value)\<close>: a mapped attribute goes through change tracking, which
  keeps the old value of the first assignment; any other name becomes a plain Python
  attribute of the object. Neither raises.
\<close>

definition setattr :: "CrudSettings \<Rightarrow> sa_instance \<Rightarrow> string \<Rightarrow> val \<Rightarrow> sa_instance" where
  "setattr C i k v =
     (if k \<in> set (attribute_names (Model C))
      then i\<lparr>attrs := (attrs i)(k \<mapsto> v),
             committed_state :=
               (case committed_state i k of
                  None \<Rightarrow> (committed_state i)(k \<mapsto> attrs i k)
                | Some old \<Rightarrow> committed_state i)\<rparr>
      else i\<lparr>attrs := (attrs i)(k \<mapsto> v)\<rparr>)"

text \<open>The stored row of an object: the flushed value of every mapped attribute.\<close>

definition db_row :: "CrudSettings \<Rightarrow> sa_instance \<Rightarrow> row" where
  "db_row C i k =
     (if k \<in> set (attribute_names (Model C))
      then (case committed_state i k of
              Some old \<Rightarrow> Some (case old of None \<Rightarrow> VNone | Some v \<Rightarrow> v)
            | None \<Rightarrow> Some (getattr i k))
      else None)"

text \<open>
  Flush. A pending object is inserted: a single-column primary key left unset takes the
  next value of the table's sequence. A persistent object is updated, its identity
  following its primary-key attributes. An object marked for deletion loses its row.
  Every flushed object's change record is reset. The flush raises \<open>IntegrityError\<close>
  when the stored rows would repeat an identity or hold a null in a primary-key or
  NOT NULL column; the objects then keep their pending changes.
\<close>

definition autoincrement :: "CrudSettings \<Rightarrow> sa_instance \<Rightarrow> int \<Rightarrow> sa_instance \<times> int" where
  "autoincrement C i n =
     (case primary_key C of
        [k] \<Rightarrow> (if getattr i k = VNone then (i\<lparr>attrs := (attrs i)(k \<mapsto> VInt n)\<rparr>, n + 1)
                else (i, n))
      | _ \<Rightarrow> (i, n))"

definition flush_instance :: "CrudSettings \<Rightarrow> sa_instance \<Rightarrow> int \<Rightarrow> sa_instance \<times> int" where
  "flush_instance C i n =
     (case status i of
        Pending \<Rightarrow>
          (let (i', n') = autoincrement C i n
           in (i'\<lparr>committed_state := Map.empty,
                   identity := Some (map (getattr i') (primary_key C)),
                   status := Persistent\<rparr>, n'))
      | Persistent \<Rightarrow>
          (i\<lparr>committed_state := Map.empty,
              identity := Some (map (getattr i) (primary_key C))\<rparr>, n)
      | Deleted \<Rightarrow> (i\<lparr>status := Detached\<rparr>, n)
      | Transient \<Rightarrow> (i, n)
      | Detached \<Rightarrow> (i, n))"

fun flush_objects :: "CrudSettings \<Rightarrow> sa_instance list \<Rightarrow> int \<Rightarrow> sa_instance list \<times> int" where
  "flush_objects C [] n = ([], n)"
| "flush_objects C (i # rest) n =
     (let (i', n') = flush_instance C i n;
          (rest', n'') = flush_objects C rest n'
      in (i' # rest', n''))"

definition stored :: "sa_instance list \<Rightarrow> sa_instance list" where
  "stored h = filter (\<lambda>i. status i = Persistent \<or> status i = Deleted) h"

definition constraints_ok :: "CrudSettings \<Rightarrow> sa_instance list \<Rightarrow> bool" where
  "constraints_ok C h =
     (distinct (map identity (stored h)) \<and>
      list_all (\<lambda>i. list_all (\<lambda>k. getattr i k \<noteq> VNone) (primary_key C @ not_null (Model C)))
        (stored h))"

definition Session_flush :: "CrudSettings \<Rightarrow> Session \<Rightarrow> error + Session" where
  "Session_flush C ss =
     (let (h, n) = flush_objects C (objects ss) (serial ss)
      in if constraints_ok C h then Inr (ss\<lparr>objects := h, serial := n\<rparr>)
         else Inl IntegrityError)"

text \<open>
  \<open>ssn.query(Model).filter(*preds).one()\<close>: with autoflush on, the session flushes first;
  the predicates are then tested on the stored rows. No row raises \<open>NoResultFound\<close>,
  more than one raises \<open>MultipleResultsFound\<close>.
\<close>

definition matching :: "CrudSettings \<Rightarrow> sa_instance list \<Rightarrow> predicate list \<Rightarrow> nat list" where
  "matching C h ps =
     filter (\<lambda>i. (status (h ! i) = Persistent \<or> status (h ! i) = Deleted) \<and>
                 list_all (\<lambda>p. p (db_row C (h ! i))) ps)
       [0..<length h]"

definition visible :: "CrudSettings \<Rightarrow> Session \<Rightarrow> error + Session" where
  "visible C ss = (if autoflush ss then Session_flush C ss else Inr ss)"

definition Query_one :: "CrudSettings \<Rightarrow> predicate list \<Rightarrow> Session \<Rightarrow> (error + nat) \<times> Session" where
  "Query_one C ps ss =
     (case visible C ss of
        Inl e \<Rightarrow> (Inl e, ss)
      | Inr ss' \<Rightarrow>
          (case matching C (objects ss') ps of
             [] \<Rightarrow> (Inl NoResultFound, ss')
           | [i] \<Rightarrow> (Inr i, ss')
           | i # j # others \<Rightarrow> (Inl MultipleResultsFound, ss')))"

text \<open>\<open>ssn.add\<close>, \<open>ssn.delete\<close> and \<open>ssn.refresh\<close> on the object at index \<open>r\<close>.\<close>

definition Session_add :: "nat \<Rightarrow> Session \<Rightarrow> error + Session" where
  "Session_add r ss =
     (if r < length (objects ss) \<and> status (objects ss ! r) = Transient
      then Inr (ss\<lparr>objects := (objects ss)[r := (objects ss ! r)\<lparr>status := Pending\<rparr>]\<rparr>)
      else if r < length (objects ss) then Inr ss
      else Inl InvalidRequestError)"

definition Session_delete :: "nat \<Rightarrow> Session \<Rightarrow> error + Session" where
  "Session_delete r ss =
     (if r < length (objects ss) \<and> status (objects ss ! r) = Persistent
      then Inr (ss\<lparr>objects := (objects ss)[r := (objects ss ! r)\<lparr>status := Deleted\<rparr>]\<rparr>)
      else if r < length (objects ss) \<and> status (objects ss ! r) = Deleted then Inr ss
      else Inl InvalidRequestError)"

definition reload :: "CrudSettings \<Rightarrow> sa_instance \<Rightarrow> sa_instance" where
  "reload C i =
     i\<lparr>attrs := (\<lambda>k. if k \<in> set (attribute_names (Model C)) then db_row C i k else attrs i k),
       committed_state := Map.empty\<rparr>"

definition Session_refresh :: "CrudSettings \<Rightarrow> nat \<Rightarrow> Session \<Rightarrow> error + Session" where
  "Session_refresh C r ss =
     (if r < length (objects ss) \<and>
         (status (objects ss ! r) = Persistent \<or> status (objects ss ! r) = Deleted)
      then Inr (ss\<lparr>objects := (objects ss)[r := reload C (objects ss ! r)]\<rparr>)
      else Inl InvalidRequestError)"

section \<open>The query facade\<close>

text \<open>
  The query engine builds one statement per nesting level of the query object and passes
  each through the registered customization hooks before running it. A level is the
  engine's \<open>Query\<close> (its \<open>query_level\<close>) with the statement built for it; what the facade
  controls is the list of statements the engine goes on to run.
\<close>

record Query =
  query_level :: nat

record Select =
  whereclause :: "predicate list"

definition Select_filter :: "Select \<Rightarrow> predicate list \<Rightarrow> Select" where
  "Select_filter stmt ps = stmt\<lparr>whereclause := whereclause stmt @ ps\<rparr>"

record ModelQueryBase =
  ssn :: Session
  params :: CrudParams

record QueryApi = ModelQueryBase +
  filter_func :: "(CrudParams \<Rightarrow> predicate list) option"

definition query_customize_statements :: "QueryApi \<Rightarrow> Query \<Rightarrow> Select \<Rightarrow> error + Select" where
  "query_customize_statements self q stmt =
     (if query_level q = 0
      then (case filter_func self of
              None \<Rightarrow> Inl AttributeError
            | Some f \<Rightarrow> Inr (Select_filter stmt (f (params self))))
      else Inr stmt)"

fun customize_all :: "QueryApi \<Rightarrow> (Query \<times> Select) list \<Rightarrow> error + Select list" where
  "customize_all self [] = Inr []"
| "customize_all self ((q, stmt) # rest) =
     (case query_customize_statements self q stmt of
        Inl e \<Rightarrow> Inl e
      | Inr stmt' \<Rightarrow>
          (case customize_all self rest of
             Inl e \<Rightarrow> Inl e
           | Inr rest' \<Rightarrow> Inr (stmt' # rest')))"

text \<open>\<open>QueryApi\<close> of \<open>crud/crudbase.py\<close>: list and count take \<open>filter_many\<close>.\<close>

definition QueryApi_list :: "(Query \<times> Select) list \<Rightarrow> QueryApi \<Rightarrow> (error + Select list) \<times> QueryApi" where
  "QueryApi_list levels self =
     (let self' = self\<lparr>filter_func := Some filter_many\<rparr>
      in (customize_all self' levels, self'))"

definition QueryApi_get :: "(Query \<times> Select) list \<Rightarrow> QueryApi \<Rightarrow> (error + Select list) \<times> QueryApi" where
  "QueryApi_get levels self =
     (let self' = self\<lparr>filter_func := Some filter_one\<rparr>
      in (customize_all self' levels, self'))"

definition QueryApi_count :: "(Query \<times> Select) list \<Rightarrow> QueryApi \<Rightarrow> (error + Select list) \<times> QueryApi" where
  "QueryApi_count levels self =
     (let self' = self\<lparr>filter_func := Some filter_many\<rparr>
      in (customize_all self' levels, self'))"

text \<open>\<open>QueryApi\<close> of \<open>crud/query/query_api.py\<close>: list and count take \<open>filter\<close>.\<close>

definition query_api_list :: "(Query \<times> Select) list \<Rightarrow> QueryApi \<Rightarrow> (error + Select list) \<times> QueryApi" where
  "query_api_list levels self =
     (let self' = self\<lparr>filter_func := Some filter'\<rparr>
      in (customize_all self' levels, self'))"

definition query_api_get :: "(Query \<times> Select) list \<Rightarrow> QueryApi \<Rightarrow> (error + Select list) \<times> QueryApi" where
  "query_api_get levels self =
     (let self' = self\<lparr>filter_func := Some filter_one\<rparr>
      in (customize_all self' levels, self'))"

definition query_api_count :: "(Query \<times> Select) list \<Rightarrow> QueryApi \<Rightarrow> (error + Select list) \<times> QueryApi" where
  "query_api_count levels self =
     (let self' = self\<lparr>filter_func := Some filter'\<rparr>
      in (customize_all self' levels, self'))"

section \<open>The mutation API\<close>

text \<open>
  The handler holds the session and the Parameters. \<open>trace\<close> is a record kept for the
  proofs: every call the handler issues to the session and every invocation of the
  pre-save hook, in order. A hook invocation is recorded with its \<open>new\<close> argument (the
  index of the object, if any) and with the attribute values that its \<open>prev\<close> argument
  shows at that moment (the snapshot on update, the object itself on delete).

  An operation returns its result, or the exception it raised, together with the handler
  as the operation left it.
\<close>

datatype event =
    EvQuery
  | EvPresave "nat option" "(string \<Rightarrow> val option) option"
  | EvAdd nat
  | EvFlush
  | EvRefresh nat
  | EvDelete nat

record MutateApi = ModelQueryBase +
  trace :: "event list"

type_synonym 'a action = "MutateApi \<Rightarrow> (error + 'a) \<times> MutateApi"

definition returnE :: "'a \<Rightarrow> 'a action" where
  "returnE x self = (Inr x, self)"

definition bindE :: "'a action \<Rightarrow> ('a \<Rightarrow> 'b action) \<Rightarrow> 'b action" where
  "bindE m f self =
     (case m self of
        (Inl e, self') \<Rightarrow> (Inl e, self')
      | (Inr x, self') \<Rightarrow> f x self')"

definition session_call :: "event \<Rightarrow> (Session \<Rightarrow> error + Session) \<Rightarrow> unit action" where
  "session_call ev f self =
     (let self1 = self\<lparr>trace := trace self @ [ev]\<rparr>
      in case f (ssn self1) of
           Inl e \<Rightarrow> (Inl e, self1)
         | Inr ss \<Rightarrow> (Inr (), self1\<lparr>ssn := ss\<rparr>))"

text \<open>\<open>_instance_hook_presave\<close>: the body is empty; the invocation is recorded.\<close>

definition instance_hook_presave :: "nat option \<Rightarrow> (string \<Rightarrow> val option) option \<Rightarrow> unit action" where
  "instance_hook_presave new prev self = (Inr (), self\<lparr>trace := trace self @ [EvPresave new prev]\<rparr>)"

subsection \<open>Instance lookup and mutation\<close>

definition find_instance :: "CrudSettings \<Rightarrow> nat action" where
  "find_instance C self =
     (let self1 = self\<lparr>trace := trace self @ [EvQuery]\<rparr>
      in case Query_one C (filter_one (params self1)) (ssn self1) of
           (r, ss) \<Rightarrow> (r, self1\<lparr>ssn := ss\<rparr>))"

text \<open>
  \<open>Model(**input_dict)\<close>, the declarative constructor: each keyword must be an attribute
  of the class, else \<open>TypeError\<close>; an accepted keyword is assigned with \<open>setattr\<close>.
\<close>

definition blank_instance :: sa_instance where
  "blank_instance =
     \<lparr>attrs = Map.empty, committed_state = Map.empty, identity = None, status = Transient\<rparr>"

fun construct :: "CrudSettings \<Rightarrow> sa_instance \<Rightarrow> input_dict \<Rightarrow> error + sa_instance" where
  "construct C i [] = Inr i"
| "construct C i ((k, v) # kw) =
     (if k \<in> set (attribute_names (Model C)) then construct C (setattr C i k v) kw
      else Inl TypeError)"

definition create_instance_from_input_dict :: "CrudSettings \<Rightarrow> input_dict \<Rightarrow> nat action" where
  "create_instance_from_input_dict C d self =
     (case construct C blank_instance d of
        Inl e \<Rightarrow> (Inl e, self)
      | Inr i \<Rightarrow>
          (Inr (length (objects (ssn self))),
           self\<lparr>ssn := (ssn self)\<lparr>objects := objects (ssn self) @ [i]\<rparr>\<rparr>))"

text \<open>The loop \<open>for key, value in input_dict.items(): setattr(instance, key, value)\<close>.\<close>

fun assign_items :: "CrudSettings \<Rightarrow> sa_instance \<Rightarrow> input_dict \<Rightarrow> sa_instance" where
  "assign_items C i [] = i"
| "assign_items C i ((k, v) # kw) = assign_items C (setattr C i k v) kw"

definition update_instance_from_input_dict :: "CrudSettings \<Rightarrow> nat \<Rightarrow> input_dict \<Rightarrow> nat action" where
  "update_instance_from_input_dict C r d self =
     (Inr r,
      self\<lparr>ssn := (ssn self)\<lparr>objects :=
        (objects (ssn self))[r := assign_items C (objects (ssn self) ! r) d]\<rparr>\<rparr>)"

text \<open>
  Modelled from the spec: \<open>get_history_proxy_for_instance\<close> (module
  \<open>apiens.tools.sqlalchemy\<close>) is not among the sources. The spec describes the previous-value
  snapshot as a read-only view of the attribute values as they were before the current
  mutation began, computed from the change tracking that every assignment goes through:
  an attribute assigned since the last flush shows the value the tracker kept, any other
  attribute shows its current value. Values here are immutable scalars, so the shallow
  and the deep-copy mode (\<open>copy\<close>) show the same.
\<close>

definition get_history_proxy_for_instance :: "sa_instance \<Rightarrow> bool \<Rightarrow> (string \<Rightarrow> val option)" where
  "get_history_proxy_for_instance i copy =
     (\<lambda>k. case committed_state i k of Some old \<Rightarrow> old | None \<Rightarrow> attrs i k)"

definition create_instance :: "CrudSettings \<Rightarrow> input_dict \<Rightarrow> nat action" where
  "create_instance C d =
     bindE (create_instance_from_input_dict C d) (\<lambda>r.
     bindE (instance_hook_presave (Some r) None) (\<lambda>u.
     returnE r))"

definition update_instance :: "CrudSettings \<Rightarrow> bool \<Rightarrow> nat \<Rightarrow> input_dict \<Rightarrow> nat action" where
  "update_instance C COPY_INSTANCE_HISTORY r d =
     bindE (update_instance_from_input_dict C r d) (\<lambda>r.
     bindE (\<lambda>self. instance_hook_presave (Some r)
              (Some (get_history_proxy_for_instance (objects (ssn self) ! r) COPY_INSTANCE_HISTORY))
              self) (\<lambda>u.
     returnE r))"

definition delete_instance :: "nat \<Rightarrow> nat action" where
  "delete_instance r =
     bindE (\<lambda>self. instance_hook_presave None (Some (attrs (objects (ssn self) ! r))) self) (\<lambda>u.
     returnE r)"

subsection \<open>Session support\<close>

definition session_create_instance_impl :: "CrudSettings \<Rightarrow> nat \<Rightarrow> nat action" where
  "session_create_instance_impl C r =
     bindE (session_call (EvAdd r) (Session_add r)) (\<lambda>u.
     bindE (session_call EvFlush (Session_flush C)) (\<lambda>u.
     returnE r))"

definition session_update_instance_impl :: "CrudSettings \<Rightarrow> nat \<Rightarrow> nat action" where
  "session_update_instance_impl C r =
     bindE (session_call EvFlush (Session_flush C)) (\<lambda>u.
     returnE r)"

definition session_delete_instance_impl :: "CrudSettings \<Rightarrow> nat \<Rightarrow> nat action" where
  "session_delete_instance_impl C r =
     bindE (session_call (EvRefresh r) (Session_refresh C r)) (\<lambda>u.
     bindE (session_call (EvDelete r) (Session_delete r)) (\<lambda>u.
     bindE (session_call EvFlush (Session_flush C)) (\<lambda>u.
     returnE r)))"

subsection \<open>The public operations of \<open>MutateApi\<close>\<close>

text \<open>\<open>dict(zip(primary_key, identity))\<close>; an object with no identity yet gives \<open>zip\<close> a \<open>None\<close>.\<close>

definition get_primary_key_dict :: "CrudSettings \<Rightarrow> nat \<Rightarrow> PrimaryKeyDict action" where
  "get_primary_key_dict C r self =
     (case identity (objects (ssn self) ! r) of
        None \<Rightarrow> (Inl TypeError, self)
      | Some ident \<Rightarrow> (Inr (zip (primary_key C) ident), self))"

text \<open>
  Modelled from the spec: \<open>CrudParams.from_input_dict\<close> (module \<open>crudparams\<close>) is not among
  the sources. The spec has \<open>update(input)\<close> take the identity from the input, which must
  contain the identity fields, and then behave as \<open>update_id\<close>, which reads the identity
  from the Parameters; the caller discards the method's result. So the method stores the
  input's value of each declared identity field into the Parameters object, and a missing
  identity field is an error.
\<close>

fun from_input_dict_fields ::
  "string list \<Rightarrow> input_dict \<Rightarrow> (string \<Rightarrow> val option) \<Rightarrow> (error + unit) \<times> (string \<Rightarrow> val option)" where
  "from_input_dict_fields [] d f = (Inr (), f)"
| "from_input_dict_fields (k # ks) d f =
     (case map_of d k of
        None \<Rightarrow> (Inl KeyError, f)
      | Some v \<Rightarrow> from_input_dict_fields ks d (f(k \<mapsto> v)))"

definition from_input_dict :: "CrudSettings \<Rightarrow> input_dict \<Rightarrow> unit action" where
  "from_input_dict C d self =
     (case from_input_dict_fields (primary_key C) d (field_values (params self)) of
        (r, f) \<Rightarrow> (r, self\<lparr>params := (params self)\<lparr>field_values := f\<rparr>\<rparr>))"

definition create :: "CrudSettings \<Rightarrow> input_dict \<Rightarrow> PrimaryKeyDict action" where
  "create C d =
     bindE (create_instance C d) (\<lambda>r.
     bindE (session_create_instance_impl C r) (\<lambda>r.
     get_primary_key_dict C r))"

definition update_id :: "CrudSettings \<Rightarrow> bool \<Rightarrow> input_dict \<Rightarrow> PrimaryKeyDict action" where
  "update_id C COPY_INSTANCE_HISTORY d =
     bindE (find_instance C) (\<lambda>r.
     bindE (update_instance C COPY_INSTANCE_HISTORY r d) (\<lambda>r.
     bindE (session_update_instance_impl C r) (\<lambda>r.
     get_primary_key_dict C r)))"

definition update :: "CrudSettings \<Rightarrow> bool \<Rightarrow> input_dict \<Rightarrow> PrimaryKeyDict action" where
  "update C COPY_INSTANCE_HISTORY d =
     bindE (from_input_dict C d) (\<lambda>u.
     update_id C COPY_INSTANCE_HISTORY d)"


definition delete :: "CrudSettings \<Rightarrow> PrimaryKeyDict action" where
  "delete C =
     bindE (find_instance C) (\<lambda>r.
     bindE (get_primary_key_dict C r) (\<lambda>pk.
     bindE (delete_instance r) (\<lambda>r.
     bindE (session_delete_instance_impl C r) (\<lambda>r.
     returnE pk))))"

subsection \<open>Reading the trace\<close>





section \<open>Parameters as the base class composes them, and the test fixtures\<close>

text \<open>
  Modelled from the spec: the \<open>CrudParams\<close> base class (module \<open>crudparams\<close>) is not among
  the sources. The spec lets an implementation compose both predicate sets from a shared
  base predicate plus identity-specific predicates: \<open>filter_one\<close> is the caller's \<open>filter\<close>
  followed by one equality per declared identity field, against the Parameters' value
  of that field, and \<open>filter_many\<close> is the listing scope, the same set as \<open>filter\<close>.
\<close>

definition filter_primary_key :: "CrudSettings \<Rightarrow> (string \<Rightarrow> val option) \<Rightarrow> predicate list" where
  "filter_primary_key C f =
     map (\<lambda>k. (\<lambda>r. r k = Some (case f k of None \<Rightarrow> VNone | Some v \<Rightarrow> v))) (primary_key C)"

definition CrudParams_base ::
  "CrudSettings \<Rightarrow> ((string \<Rightarrow> val option) \<Rightarrow> predicate list) \<Rightarrow> (string \<Rightarrow> val option) \<Rightarrow> CrudParams" where
  "CrudParams_base C flt f =
     \<lparr>field_values = f,
      filter_impl = flt,
      filter_one_impl = (\<lambda>f. flt f @ filter_primary_key C f),
      filter_many_impl = flt\<rparr>"

text \<open>
  The fixtures of \<open>tests/test_cqrs_crud.py\<close>: the \<open>User\<close> model, \<open>UserIdCrudParams(id=...)\<close>
  without and with the "only admins can modify admins" filter, a stored user row, and a
  handler on a session with autoflush on.
\<close>

definition User :: CrudSettings where
  "User =
     \<lparr>Model = \<lparr>attribute_names = [''id'', ''is_admin'', ''login'', ''name'', ''articles''],
               not_null = [''is_admin'']\<rparr>,
      primary_key = [''id'']\<rparr>"

definition UserIdCrudParams :: "val \<Rightarrow> CrudParams" where
  "UserIdCrudParams uid = CrudParams_base User (\<lambda>f. []) [''id'' \<mapsto> uid]"

definition only_admins_modify_admins :: "(string \<Rightarrow> val option) \<Rightarrow> predicate list" where
  "only_admins_modify_admins f =
     (if f ''i_am_admin'' = Some (VBool True) then []
      else [\<lambda>r. r ''is_admin'' = Some (VBool False)])"

definition UserIdCrudParams_filtered :: "val \<Rightarrow> bool \<Rightarrow> CrudParams" where
  "UserIdCrudParams_filtered uid i_am_admin =
     CrudParams_base User only_admins_modify_admins
       [''id'' \<mapsto> uid, ''i_am_admin'' \<mapsto> VBool i_am_admin]"

definition user_row :: "int \<Rightarrow> bool \<Rightarrow> val \<Rightarrow> val \<Rightarrow> sa_instance" where
  "user_row uid adm login nm =
     \<lparr>attrs = [''id'' \<mapsto> VInt uid, ''is_admin'' \<mapsto> VBool adm, ''login'' \<mapsto> login, ''name'' \<mapsto> nm],
      committed_state = Map.empty,
      identity = Some [VInt uid],
      status = Persistent\<rparr>"

definition handler :: "sa_instance list \<Rightarrow> int \<Rightarrow> CrudParams \<Rightarrow> MutateApi" where
  "handler h n p = \<lparr>ssn = \<lparr>objects = h, autoflush = True, serial = n\<rparr>, params = p, trace = []\<rparr>"

section \<open>Properties of the query facade\<close>

lemma customize_all_bound:
  "filter_func self = Some f \<Longrightarrow>
   customize_all self levels =
     Inr (map (\<lambda>(q, stmt). if query_level q = 0 then Select_filter stmt (f (params self)) else stmt)
            levels)"
  by (induction levels) (auto simp: query_customize_statements_def)

text \<open>
  Claim C3. \<open>list()\<close> and \<open>count()\<close> bind the Parameters' listing predicates (\<open>filter_many\<close> in
  \<open>crud/crudbase.py\<close>, \<open>filter\<close> in \<open>crud/query/query_api.py\<close>) and \<open>get()\<close> binds \<open>filter_one\<close>.
  Of the statements the engine passes through the customization hook, those of nesting
  level 0 get the bound predicates appended to their conditions, and those of every
  deeper level come back as they went in.
\<close>

theorem C3_filter_injected_at_level_0_only:
  "fst (QueryApi_list levels self) =
     Inr (map (\<lambda>(q, stmt). if query_level q = 0
                            then stmt\<lparr>whereclause := whereclause stmt @ filter_many (params self)\<rparr>
                            else stmt) levels)
   \<and> fst (QueryApi_count levels self) =
     Inr (map (\<lambda>(q, stmt). if query_level q = 0
                            then stmt\<lparr>whereclause := whereclause stmt @ filter_many (params self)\<rparr>
                            else stmt) levels)
   \<and> fst (QueryApi_get levels self) =
     Inr (map (\<lambda>(q, stmt). if query_level q = 0
                            then stmt\<lparr>whereclause := whereclause stmt @ filter_one (params self)\<rparr>
                            else stmt) levels)
   \<and> fst (query_api_list levels self) =
     Inr (map (\<lambda>(q, stmt). if query_level q = 0
                            then stmt\<lparr>whereclause := whereclause stmt @ filter' (params self)\<rparr>
                            else stmt) levels)
   \<and> fst (query_api_count levels self) =
     Inr (map (\<lambda>(q, stmt). if query_level q = 0
                            then stmt\<lparr>whereclause := whereclause stmt @ filter' (params self)\<rparr>
                            else stmt) levels)
   \<and> fst (query_api_get levels self) =
     Inr (map (\<lambda>(q, stmt). if query_level q = 0
                            then stmt\<lparr>whereclause := whereclause stmt @ filter_one (params self)\<rparr>
                            else stmt) levels)
   \<and> filter_func (snd (QueryApi_list levels self)) = Some filter_many
   \<and> filter_func (snd (QueryApi_count levels self)) = Some filter_many
   \<and> filter_func (snd (QueryApi_get levels self)) = Some filter_one
   \<and> filter_func (snd (query_api_list levels self)) = Some filter'
   \<and> filter_func (snd (query_api_count levels self)) = Some filter'
   \<and> filter_func (snd (query_api_get levels self)) = Some filter_one
   \<and> query_customize_statements self (q\<lparr>query_level := Suc n\<rparr>) stmt = Inr stmt
   \<and> query_customize_statements (self\<lparr>filter_func := Some f\<rparr>) (q\<lparr>query_level := 0\<rparr>) stmt =
       Inr (stmt\<lparr>whereclause := whereclause stmt @ f (params self)\<rparr>)"
  by (auto simp: QueryApi_list_def QueryApi_count_def QueryApi_get_def
        query_api_list_def query_api_count_def query_api_get_def
        customize_all_bound Select_filter_def query_customize_statements_def Let_def)

section \<open>Properties of the mutation API\<close>

subsection \<open>The order of hook and session calls\<close>

lemmas action_defs = bindE_def returnE_def session_call_def instance_hook_presave_def
  find_instance_def create_instance_from_input_dict_def update_instance_from_input_dict_def
  create_instance_def update_instance_def delete_instance_def
  session_create_instance_impl_def session_update_instance_impl_def session_delete_instance_impl_def
  get_primary_key_dict_def







subsection \<open>Flush\<close>

lemma flush_objects_length: "length (fst (flush_objects C h n)) = length h"
  by (induction h arbitrary: n) (simp_all add: case_prod_beta Let_def)

lemma flush_objects_nth:
  "i < length h \<Longrightarrow> \<exists>m. fst (flush_objects C h n) ! i = fst (flush_instance C (h ! i) m)"
proof (induction h arbitrary: n i)
  case Nil
  then show ?case by simp
next
  case (Cons x h)
  show ?case
  proof (cases i)
    case 0
    then show ?thesis by (auto simp: case_prod_beta Let_def)
  next
    case (Suc j)
    with Cons.prems have "j < length h" by simp
    from Cons.IH[OF this, of "snd (flush_instance C x n)"] Suc
    show ?thesis by (auto simp: case_prod_beta Let_def)
  qed
qed

lemma flush_instance_status:
  "status (fst (flush_instance C x m)) =
     (case status x of Pending \<Rightarrow> Persistent | Deleted \<Rightarrow> Detached | Transient \<Rightarrow> Transient
      | Persistent \<Rightarrow> Persistent | Detached \<Rightarrow> Detached)"
  by (auto simp: flush_instance_def split: status.splits prod.splits)

lemma flush_instance_attrs:
  "status x \<noteq> Pending \<Longrightarrow> attrs (fst (flush_instance C x m)) = attrs x"
  by (auto simp: flush_instance_def split: status.splits)


lemma flush_instance_Deleted:
  "status x = Deleted \<Longrightarrow> fst (flush_instance C x m) = x\<lparr>status := Detached\<rparr>"
  by (simp add: flush_instance_def)

lemma Session_flush_Inr:
  "Session_flush C ss = Inr ss' \<Longrightarrow>
   objects ss' = fst (flush_objects C (objects ss) (serial ss)) \<and>
   constraints_ok C (objects ss') \<and> autoflush ss' = autoflush ss"
  by (auto simp: Session_flush_def Let_def split: prod.splits if_splits)

lemma Session_flush_nth:
  assumes "Session_flush C ss = Inr ss'" and "i < length (objects ss)"
  shows "length (objects ss') = length (objects ss) \<and>
         (\<exists>m. objects ss' ! i = fst (flush_instance C (objects ss ! i) m))"
  using Session_flush_Inr[OF assms(1)] flush_objects_nth[OF assms(2)] flush_objects_length
  by metis

subsection \<open>Lookup\<close>


lemma Query_one_Inr:
  "Query_one C ps ss = (Inr r, ss') \<Longrightarrow> visible C ss = Inr ss' \<and> matching C (objects ss') ps = [r]"
  by (auto simp: Query_one_def split: sum.splits list.splits)

lemma matching_member:
  "r \<in> set (matching C h ps) \<Longrightarrow>
   r < length h \<and> (status (h ! r) = Persistent \<or> status (h ! r) = Deleted) \<and>
   list_all (\<lambda>p. p (db_row C (h ! r))) ps"
  by (auto simp: matching_def)

lemma find_instance_run:
  "find_instance C self =
     (fst (Query_one C (filter_one (params self)) (ssn self)),
      self\<lparr>trace := trace self @ [EvQuery],
           ssn := snd (Query_one C (filter_one (params self)) (ssn self))\<rparr>)"
  by (simp add: find_instance_def Let_def split: prod.splits)

subsection \<open>Runs that return\<close>

lemma delete_Inr:
  "delete C self = (Inr pk, self') \<Longrightarrow>
   \<exists>r ss1 ss2 ss3 ident.
     Query_one C (filter_one (params self)) (ssn self) = (Inr r, ss1) \<and>
     identity (objects ss1 ! r) = Some ident \<and> pk = zip (primary_key C) ident \<and>
     Session_refresh C r ss1 = Inr ss2 \<and> Session_delete r ss2 = Inr ss3 \<and>
     Session_flush C ss3 = Inr (ssn self') \<and> params self' = params self"
  by (auto simp: delete_def action_defs Let_def split: sum.splits prod.splits option.splits)

lemma update_id_run:
  "Query_one C (filter_one (params self)) (ssn self) = (Inr r, ss1) \<Longrightarrow>
   update_id C cp d self =
     (let x = assign_items C (objects ss1 ! r) d;
          ss2 = ss1\<lparr>objects := (objects ss1)[r := x]\<rparr>;
          self2 = self\<lparr>trace := trace self @
                    [EvQuery, EvPresave (Some r) (Some (get_history_proxy_for_instance (objects ss2 ! r) cp)), EvFlush],
                    ssn := ss2\<rparr>
      in case Session_flush C ss2 of
           Inl e \<Rightarrow> (Inl e, self2)
         | Inr ss3 \<Rightarrow>
             (case identity (objects ss3 ! r) of
                None \<Rightarrow> (Inl TypeError, self2\<lparr>ssn := ss3\<rparr>)
              | Some ident \<Rightarrow> (Inr (zip (primary_key C) ident), self2\<lparr>ssn := ss3\<rparr>)))"
  by (auto simp: update_id_def action_defs Let_def split: sum.splits prod.splits option.splits)

lemma update_id_fail:
  "Query_one C (filter_one (params self)) (ssn self) = (Inl e, ss1) \<Longrightarrow>
   update_id C cp d self = (Inl e, self\<lparr>trace := trace self @ [EvQuery], ssn := ss1\<rparr>)"
  by (auto simp: update_id_def action_defs Let_def split: sum.splits prod.splits option.splits)

lemma delete_fail:
  "Query_one C (filter_one (params self)) (ssn self) = (Inl e, ss1) \<Longrightarrow>
   delete C self = (Inl e, self\<lparr>trace := trace self @ [EvQuery], ssn := ss1\<rparr>)"
  by (auto simp: delete_def action_defs Let_def split: sum.splits prod.splits option.splits)

subsection \<open>Assignment from an input dictionary\<close>

lemma setattr_frame [simp]:
  "status (setattr C i k v) = status i" "identity (setattr C i k v) = identity i"
  "attrs (setattr C i k v) = (attrs i)(k \<mapsto> v)"
  by (simp_all add: setattr_def)

lemma assign_items_frame [simp]:
  "status (assign_items C i d) = status i" "identity (assign_items C i d) = identity i"
  by (induction d arbitrary: i) auto

lemma assign_items_attrs:
  "attrs (assign_items C i d) k = (case map_of (rev d) k of Some v \<Rightarrow> Some v | None \<Rightarrow> attrs i k)"
  by (induction d arbitrary: i) (auto simp: map_add_def split: option.splits)

lemma assign_items_untouched:
  "k \<notin> fst ` set d \<Longrightarrow> attrs (assign_items C i d) k = attrs i k"
  by (induction d arbitrary: i) auto




lemma construct_Inl:
  "construct C i d = Inl e \<Longrightarrow> e = TypeError \<and> \<not> fst ` set d \<subseteq> set (attribute_names (Model C))"
  by (induction d arbitrary: i) (auto split: if_splits)



subsection \<open>Lookup failures\<close>

text \<open>
  Claim C2. \<open>update_id\<close> and \<open>delete\<close> resolve their target through \<open>filter_one\<close> on the
  rows the lookup sees. No matching row makes both raise \<open>NoResultFound\<close>, two or more make
  both raise \<open>MultipleResultsFound\<close>, a different error, and in both cases the session is
  left as the lookup saw it: no entity is picked. The lookup yields an entity only when it
  is the single match.
\<close>

theorem C2_lookup_one_or_fail:
  "(case visible C (ssn self) of
      Inl e \<Rightarrow>
        fst (update_id C cp d self) = Inl e \<and> fst (delete C self) = Inl e
    | Inr ss \<Rightarrow>
        (case matching C (objects ss) (filter_one (params self)) of
           [] \<Rightarrow>
             fst (update_id C cp d self) = Inl NoResultFound \<and>
             fst (delete C self) = Inl NoResultFound \<and>
             ssn (snd (update_id C cp d self)) = ss \<and> ssn (snd (delete C self)) = ss
         | [r] \<Rightarrow> fst (find_instance C self) = Inr r
         | r # r' # others \<Rightarrow>
             fst (update_id C cp d self) = Inl MultipleResultsFound \<and>
             fst (delete C self) = Inl MultipleResultsFound \<and>
             ssn (snd (update_id C cp d self)) = ss \<and> ssn (snd (delete C self)) = ss))
   \<and> NoResultFound \<noteq> MultipleResultsFound
   \<and> (case fst (find_instance C self) of
        Inl e \<Rightarrow> fst (update_id C cp d self) = Inl e \<and> fst (delete C self) = Inl e
      | Inr r \<Rightarrow>
          (case visible C (ssn self) of
             Inl e \<Rightarrow> False
           | Inr ss \<Rightarrow> matching C (objects ss) (filter_one (params self)) = [r]))"
  by (auto simp: update_id_def delete_def action_defs Let_def Query_one_def
       split: sum.splits prod.splits option.splits list.splits)

subsection \<open>Delete\<close>

lemma stored_after_delete_flush:
  assumes r: "r < length (objects ss1)"
      and st: "status (objects ss1 ! r) = Persistent \<or> status (objects ss1 ! r) = Deleted"
      and rf: "Session_refresh C r ss1 = Inr ss2"
      and dl: "Session_delete r ss2 = Inr ss3"
      and fl: "Session_flush C ss3 = Inr ss4"
  shows "status (objects ss4 ! r) = Detached"
proof -
  from rf r st have o2: "objects ss2 = (objects ss1)[r := reload C (objects ss1 ! r)]"
    by (auto simp: Session_refresh_def split: if_splits)
  have st2: "status (objects ss2 ! r) = Persistent \<or> status (objects ss2 ! r) = Deleted"
    using o2 r st by (auto simp: reload_def)
  have len2: "r < length (objects ss2)" using o2 r by simp
  from dl st2 len2 have st3: "status (objects ss3 ! r) = Deleted" and len3: "r < length (objects ss3)"
    by (auto simp: Session_delete_def split: if_splits)
  from Session_flush_nth[OF fl len3] obtain m where
    "objects ss4 ! r = fst (flush_instance C (objects ss3 ! r) m)" by blast
  with st3 show ?thesis by (simp add: flush_instance_Deleted)
qed

text \<open>
  Claim C4. A \<open>delete()\<close> that returns has returned the declared identity-field names zipped
  with the identity that the resolved entity had right after the lookup, when its row was
  still stored; at the end of the call the row is removed.
\<close>

theorem C4_delete_returns_identity_before_removal:
  assumes "delete C self = (Inr pk, self')"
  shows "\<exists>r self1 ident.
           find_instance C self = (Inr r, self1) \<and>
           r < length (objects (ssn self1)) \<and>
           (status (objects (ssn self1) ! r) = Persistent \<or> status (objects (ssn self1) ! r) = Deleted) \<and>
           identity (objects (ssn self1) ! r) = Some ident \<and>
           pk = zip (primary_key C) ident \<and>
           status (objects (ssn self') ! r) = Detached"
proof -
  from delete_Inr[OF assms] obtain r ss1 ss2 ss3 ident where
    q: "Query_one C (filter_one (params self)) (ssn self) = (Inr r, ss1)" and
    i: "identity (objects ss1 ! r) = Some ident" and pk: "pk = zip (primary_key C) ident" and
    rf: "Session_refresh C r ss1 = Inr ss2" and dl: "Session_delete r ss2 = Inr ss3" and
    fl: "Session_flush C ss3 = Inr (ssn self')"
    by blast
  from Query_one_Inr[OF q] have "r \<in> set (matching C (objects ss1) (filter_one (params self)))"
    by simp
  from matching_member[OF this] have r: "r < length (objects ss1)" and
    st: "status (objects ss1 ! r) = Persistent \<or> status (objects ss1 ! r) = Deleted"
    by auto
  have gone: "status (objects (ssn self') ! r) = Detached"
    by (rule stored_after_delete_flush[OF r st rf dl fl])
  have f: "find_instance C self = (Inr r, self\<lparr>trace := trace self @ [EvQuery], ssn := ss1\<rparr>)"
    using q by (simp add: find_instance_run)
  show ?thesis using f r st i pk gone by auto
qed

theorem C4_witness:
  "\<exists>r self1 ident.
     find_instance User
       (handler [user_row 1 False VNone VNone, user_row 2 False VNone VNone] 3 (UserIdCrudParams (VInt 2)))
       = (Inr r, self1) \<and>
     r < length (objects (ssn self1)) \<and>
     (status (objects (ssn self1) ! r) = Persistent \<or> status (objects (ssn self1) ! r) = Deleted) \<and>
     identity (objects (ssn self1) ! r) = Some ident \<and>
     [(''id'', VInt 2)] = zip (primary_key User) ident \<and>
     status (objects (ssn (snd (delete User
       (handler [user_row 1 False VNone VNone, user_row 2 False VNone VNone] 3 (UserIdCrudParams (VInt 2)))))) ! r)
       = Detached"
proof -
  let ?s = "handler [user_row 1 False VNone VNone, user_row 2 False VNone VNone] 3 (UserIdCrudParams (VInt 2))"
  have "fst (delete User ?s) = Inr [(''id'', VInt 2)]"
    by code_simp
  then have run: "delete User ?s = (Inr [(''id'', VInt 2)], snd (delete User ?s))"
    by (metis prod.collapse)
  from C4_delete_returns_identity_before_removal[OF run] show ?thesis .
qed


subsection \<open>Update\<close>

lemma Session_flush_keeps:
  assumes fl: "Session_flush C ss = Inr ss'" and j: "j < length (objects ss)"
    and np: "status (objects ss ! j) \<noteq> Pending"
  shows "attrs (objects ss' ! j) = attrs (objects ss ! j)"
    and "status (objects ss' ! j) \<noteq> Pending"
    and "length (objects ss') = length (objects ss)"
proof -
  from Session_flush_nth[OF fl j] obtain m where
    len: "length (objects ss') = length (objects ss)" and
    o: "objects ss' ! j = fst (flush_instance C (objects ss ! j) m)" by blast
  show "attrs (objects ss' ! j) = attrs (objects ss ! j)"
    using o np by (simp add: flush_instance_attrs)
  show "status (objects ss' ! j) \<noteq> Pending"
    using o by (simp add: flush_instance_status split: status.splits)
  show "length (objects ss') = length (objects ss)" by (rule len)
qed



lemma Query_one_session:
  "Query_one C ps ss = (x, ss1) \<Longrightarrow> ss1 = ss \<or> (autoflush ss \<and> Session_flush C ss = Inr ss1)"
  by (auto simp: Query_one_def visible_def split: sum.splits list.splits if_splits)

lemma Query_one_keeps:
  assumes q: "Query_one C ps ss = (x, ss1)" and j: "j < length (objects ss)"
    and np: "status (objects ss ! j) \<noteq> Pending"
  shows "attrs (objects ss1 ! j) = attrs (objects ss ! j)"
    and "status (objects ss1 ! j) \<noteq> Pending"
    and "length (objects ss1) = length (objects ss)"
  using Query_one_session[OF q] Session_flush_keeps[OF _ j np, of C ss1] np by auto

text \<open>
  Claim C5. Whatever \<open>update_id(d)\<close> does and however it ends, an attribute whose name is not
  a key of \<open>d\<close> has afterwards the value it had before the call, on every object the
  session already stores (an object still waiting for its first insert is excluded: the
  flush may give it a generated identity).
\<close>

theorem C5_update_leaves_absent_fields:
  assumes run: "update_id C cp d self = (res, self')"
      and j: "j < length (objects (ssn self))"
      and np: "status (objects (ssn self) ! j) \<noteq> Pending"
      and f: "f \<notin> fst ` set d"
  shows "attrs (objects (ssn self') ! j) f = attrs (objects (ssn self) ! j) f"
proof -
  obtain x ss1 where q: "Query_one C (filter_one (params self)) (ssn self) = (x, ss1)"
    by (cases "Query_one C (filter_one (params self)) (ssn self)")
  note k1 = Query_one_keeps[OF q j np]
  show ?thesis
  proof (cases x)
    case (Inl e)
    with q run update_id_fail[of C self e ss1 cp d] have "ssn self' = ss1" by auto
    with k1 show ?thesis by simp
  next
    case (Inr r)
    let ?ss2 = "ss1\<lparr>objects := (objects ss1)[r := assign_items C (objects ss1 ! r) d]\<rparr>"
    have a2: "attrs (objects ?ss2 ! j) f = attrs (objects ss1 ! j) f"
      using f k1(3) j by (cases "j = r") (simp_all add: assign_items_untouched)
    have s2: "status (objects ?ss2 ! j) \<noteq> Pending"
      using k1(2) k1(3) j by (cases "j = r") simp_all
    have j2: "j < length (objects ?ss2)" using k1(3) j by simp
    from q Inr run update_id_run[of C self r ss1 cp d]
    have "ssn self' = ?ss2 \<or> Session_flush C ?ss2 = Inr (ssn self')"
      by (auto simp: Let_def split: sum.splits option.splits)
    then show ?thesis
    proof
      assume "ssn self' = ?ss2"
      with a2 k1 show ?thesis by simp
    next
      assume fl: "Session_flush C ?ss2 = Inr (ssn self')"
      from Session_flush_keeps(1)[OF fl j2 s2] a2 k1 show ?thesis by simp
    qed
  qed
qed

subsection \<open>The previous-value snapshot\<close>





theorem C5_witness:
  "attrs (objects (ssn (snd (update_id User False [(''login'', VStr ''john1'')]
      (handler [user_row 1 False VNone (VStr ''John'')] 2 (UserIdCrudParams (VInt 1)))))) ! 0) ''name''
     = Some (VStr ''John'') \<and>
   attrs (objects (ssn (snd (update_id User False [(''login'', VStr ''john1'')]
      (handler [user_row 1 False VNone (VStr ''John'')] 2 (UserIdCrudParams (VInt 1)))))) ! 0) ''login''
     = Some (VStr ''john1'')"
proof -
  let ?s = "handler [user_row 1 False VNone (VStr ''John'')] 2 (UserIdCrudParams (VInt 1))"
  let ?d = "[(''login'', VStr ''john1'')]"
  have run: "update_id User False ?d ?s = (fst (update_id User False ?d ?s), snd (update_id User False ?d ?s))"
    by simp
  have login: "attrs (objects (ssn (snd (update_id User False ?d ?s))) ! 0) ''login'' = Some (VStr ''john1'')"
    by code_simp
  from C5_update_leaves_absent_fields[OF run, of 0 "''name''"] login
  show ?thesis by (simp add: handler_def user_row_def)
qed








subsection \<open>Unknown input fields\<close>

text \<open>
  Claim C8. On the fixtures of the tests, with one stored user of identity 1:
  \<open>update_id({'UNKNOWN': 'INVALID'})\<close> returns \<open>{'id': 1}\<close> and leaves the unknown name on the
  object as a plain attribute, where \<open>create({'UNKNOWN': 'INVALID'})\<close> raises \<open>TypeError\<close> in
  the constructor. The update path signals no invalid-field failure.
\<close>

theorem C8_update_accepts_unknown_field:
  "fst (update_id User False [(''UNKNOWN'', VStr ''INVALID'')]
          (handler [user_row 1 False VNone VNone] 2 (UserIdCrudParams (VInt 1))))
     = Inr [(''id'', VInt 1)] \<and>
   attrs (objects (ssn (snd (update_id User False [(''UNKNOWN'', VStr ''INVALID'')]
          (handler [user_row 1 False VNone VNone] 2 (UserIdCrudParams (VInt 1)))))) ! 0) ''UNKNOWN''
     = Some (VStr ''INVALID'') \<and>
   fst (create User [(''UNKNOWN'', VStr ''INVALID'')]
          (handler [user_row 1 False VNone VNone] 2 (UserIdCrudParams (VInt 1))))
     = Inl TypeError"
  by code_simp

subsection \<open>The Parameters object\<close>

lemma from_input_dict_fields_other:
  "k \<notin> set ks \<Longrightarrow> snd (from_input_dict_fields ks d f) k = f k"
  by (induction ks arbitrary: f) (auto split: option.splits)

lemma from_input_dict_fields_Inr:
  "set ks \<subseteq> fst ` set d \<Longrightarrow>
   from_input_dict_fields ks d f = (Inr (), \<lambda>k. if k \<in> set ks then map_of d k else f k)"
proof (induction ks arbitrary: f)
  case Nil
  then show ?case by simp
next
  case (Cons a ks)
  then obtain v where v: "map_of d a = Some v"
    by (metis list.set_intros(1) map_of_eq_None_iff not_Some_eq subsetD)
  from Cons.prems have "set ks \<subseteq> fst ` set d" by simp
  from Cons.IH[OF this, of "f(a \<mapsto> v)"]
  have 1: "from_input_dict_fields ks d (f(a \<mapsto> v)) =
             (Inr (), \<lambda>k. if k \<in> set ks then map_of d k else (f(a \<mapsto> v)) k)" .
  have 2: "(\<lambda>k. if k \<in> set ks then map_of d k else (f(a \<mapsto> v)) k) =
           (\<lambda>k. if k \<in> set (a # ks) then map_of d k else f k)"
    using v by (auto simp: fun_eq_iff)
  show ?case using v 1 2 by simp
qed

lemma from_input_dict_fields_fails:
  "fst (from_input_dict_fields ks d f) = Inr u \<Longrightarrow> set ks \<subseteq> fst ` set d"
proof (induction ks arbitrary: f)
  case Nil
  then show ?case by simp
next
  case (Cons a ks)
  from Cons.prems obtain v where v: "map_of d a = Some v"
    and rest: "fst (from_input_dict_fields ks d (f(a \<mapsto> v))) = Inr u"
    by (auto split: option.splits)
  from v have "a \<in> fst ` set d"
    by (metis fst_conv image_eqI map_of_SomeD)
  with Cons.IH[OF rest] show ?case by simp
qed

lemma find_instance_params: "params (snd (find_instance C self)) = params self"
  by (simp add: find_instance_run)

lemma create_params: "params (snd (create C d self)) = params self"
  by (auto simp: create_def action_defs Let_def split: sum.splits prod.splits option.splits)

lemma update_id_params: "params (snd (update_id C cp d self)) = params self"
  by (auto simp: update_id_def action_defs Let_def split: sum.splits prod.splits option.splits)

lemma delete_params: "params (snd (delete C self)) = params self"
  by (auto simp: delete_def action_defs Let_def split: sum.splits prod.splits option.splits)

lemma update_params:
  "params (snd (update C cp d self)) =
     (params self)\<lparr>field_values := snd (from_input_dict_fields (primary_key C) d (field_values (params self)))\<rparr>"
proof (cases "from_input_dict_fields (primary_key C) d (field_values (params self))")
  case (Pair r f)
  show ?thesis
  proof (cases r)
    case (Inl e)
    with Pair show ?thesis by (simp add: update_def bindE_def from_input_dict_def)
  next
    case (Inr u)
    with Pair show ?thesis
      by (simp add: update_def bindE_def from_input_dict_def update_id_params)
  qed
qed

lemma update_Inr_keys:
  assumes "fst (update C cp d self) = Inr pk"
  shows "set (primary_key C) \<subseteq> fst ` set d"
proof -
  obtain r f where p: "from_input_dict_fields (primary_key C) d (field_values (params self)) = (r, f)"
    by (cases "from_input_dict_fields (primary_key C) d (field_values (params self))")
  with assms obtain u where "r = Inr u"
    by (cases r) (auto simp: update_def bindE_def from_input_dict_def)
  with p from_input_dict_fields_fails[of "primary_key C" d "field_values (params self)" u]
  show ?thesis by simp
qed

text \<open>
  Claim C9, as stated, fails for \<open>update\<close>: called with Parameters whose \<open>id\<close> is \<open>None\<close> and
  an input holding \<open>id = 1\<close>, it leaves the Parameters object with \<open>id = 1\<close>.
\<close>

theorem C9_counterexample:
  "params (snd (update User False [(''id'', VInt 1), (''login'', VStr ''john2'')]
             (handler [user_row 1 False VNone VNone] 2 (UserIdCrudParams VNone))))
   \<noteq> params (handler [user_row 1 False VNone VNone] 2 (UserIdCrudParams VNone))"
proof
  let ?s = "handler [user_row 1 False VNone VNone] 2 (UserIdCrudParams VNone)"
  let ?d = "[(''id'', VInt 1), (''login'', VStr ''john2'')]"
  assume "params (snd (update User False ?d ?s)) = params ?s"
  then have "field_values (params (snd (update User False ?d ?s))) ''id'' = field_values (params ?s) ''id''"
    by simp
  moreover have "field_values (params (snd (update User False ?d ?s))) ''id'' = Some (VInt 1)"
    by code_simp
  moreover have "field_values (params ?s) ''id'' = Some VNone"
    by code_simp
  ultimately show False by simp
qed

text \<open>
  Claim C9, amended. \<open>create\<close>, \<open>update_id\<close>, \<open>delete\<close>, \<open>list\<close>, \<open>get\<close> and \<open>count\<close> leave the
  Parameters object as it was. \<open>update\<close> leaves its predicate methods and every field that
  is not a declared identity field as they were, and when it returns, each declared
  identity field of the Parameters holds the value the input gave for it.
\<close>

theorem C9_parameters_change_only_in_update:
  "params (snd (create C d self)) = params self \<and>
   params (snd (update_id C cp d self)) = params self \<and>
   params (snd (delete C self)) = params self \<and>
   params (snd (QueryApi_list levels q)) = params q \<and>
   params (snd (QueryApi_get levels q)) = params q \<and>
   params (snd (QueryApi_count levels q)) = params q \<and>
   params (snd (query_api_list levels q)) = params q \<and>
   params (snd (query_api_get levels q)) = params q \<and>
   params (snd (query_api_count levels q)) = params q \<and>
   filter_impl (params (snd (update C cp d self))) = filter_impl (params self) \<and>
   filter_one_impl (params (snd (update C cp d self))) = filter_one_impl (params self) \<and>
   filter_many_impl (params (snd (update C cp d self))) = filter_many_impl (params self) \<and>
   (k \<notin> set (primary_key C) \<longrightarrow>
      field_values (params (snd (update C cp d self))) k = field_values (params self) k) \<and>
   (k \<in> set (primary_key C) \<longrightarrow> fst (update C cp d self) = Inr pk \<longrightarrow>
      field_values (params (snd (update C cp d self))) k = map_of d k)"
proof -
  have 1: "k \<notin> set (primary_key C) \<longrightarrow>
      field_values (params (snd (update C cp d self))) k = field_values (params self) k"
    by (simp add: update_params from_input_dict_fields_other)
  have 2: "k \<in> set (primary_key C) \<longrightarrow> fst (update C cp d self) = Inr pk \<longrightarrow>
      field_values (params (snd (update C cp d self))) k = map_of d k"
    using update_Inr_keys[of C cp d self pk]
    by (auto simp: update_params from_input_dict_fields_Inr)
  show ?thesis
    using 1 2
    by (simp add: create_params update_id_params delete_params update_params
          QueryApi_list_def QueryApi_get_def QueryApi_count_def
          query_api_list_def query_api_get_def query_api_count_def Let_def)
qed

theorem C9_witness:
  "field_values (params (snd (update User False [(''id'', VInt 1), (''login'', VStr ''john2'')]
      (handler [user_row 1 False VNone VNone] 2 (UserIdCrudParams_filtered VNone True))))) ''i_am_admin''
     = Some (VBool True) \<and>
   field_values (params (snd (update User False [(''id'', VInt 1), (''login'', VStr ''john2'')]
      (handler [user_row 1 False VNone VNone] 2 (UserIdCrudParams_filtered VNone True))))) ''id''
     = Some (VInt 1)"
proof -
  let ?s = "handler [user_row 1 False VNone VNone] 2 (UserIdCrudParams_filtered VNone True)"
  let ?d = "[(''id'', VInt 1), (''login'', VStr ''john2'')]"
  have r: "fst (update User False ?d ?s) = Inr [(''id'', VInt 1)]" by code_simp
  have a: "field_values (params ?s) ''i_am_admin'' = Some (VBool True)" by code_simp
  have k1: "''i_am_admin'' \<notin> set (primary_key User)" by (simp add: User_def)
  have k2: "''id'' \<in> set (primary_key User)" by (simp add: User_def)
  from C9_parameters_change_only_in_update[of User ?d ?s False _ _ "''i_am_admin''"] k1 a
  have 1: "field_values (params (snd (update User False ?d ?s))) ''i_am_admin'' = Some (VBool True)"
    by simp
  from C9_parameters_change_only_in_update[of User ?d ?s False _ _ "''id''" "[(''id'', VInt 1)]"] k2 r
  have 2: "field_values (params (snd (update User False ?d ?s))) ''id'' = Some (VInt 1)"
    by simp
  from 1 2 show ?thesis by simp
qed


subsection \<open>Identity fields in the input\<close>










lemma getattr_status_upd [simp]: "getattr (x\<lparr>status := s\<rparr>) = getattr x"
  by (simp add: getattr_def fun_eq_iff)











subsection \<open>Flushing twice\<close>


lemma getattr_upd [simp]:
  "getattr (x\<lparr>committed_state := c\<rparr>) = getattr x"
  "getattr (x\<lparr>identity := i\<rparr>) = getattr x"
  by (simp_all add: getattr_def fun_eq_iff)










subsection \<open>Updating twice with the same input\<close>










end
